theory Spec2Isabelle
  imports Main "HOL-Library.Word" "HOL-Library.Sublist"
begin

section \<open>Grant authorization: pkg/auth/oauth/handlers/grant.go\<close>

text \<open>
  The file under verification is the grant check of an OAuth2 authorize flow. It has one
  orchestrator, \<open>GrantCheck.HandleAuthorize\<close>, and four implementations of the
  \<open>GrantHandler\<close> interface (\<open>emptyGrant\<close>, \<open>autoGrant\<close>, \<open>redirectGrant\<close>,
  \<open>perClientGrant\<close>). The embedding keeps the Go names. Mutation of the request
  (\<open>ar.Authorized = ...\<close>) and writes to the \<open>http.ResponseWriter\<close> are explicit state
  passing: every operation returns the new request and the new writer next to its Go
  return values. Go's \<open>(T, error)\<close> results are pairs with an \<open>error option\<close>, \<open>None\<close>
  being \<open>nil\<close>.

  Handles that the surrounding osin server always fills in (\<open>ar.Client\<close>,
  \<open>ar.HttpRequest\<close>, \<open>req.URL\<close>, the pointer behind a client's user data) are values
  here, not nullable pointers.
\<close>

subsection \<open>Data\<close>

text \<open>
  A Go \<open>error\<close> is observed through its message. \<open>errorString\<close> is what \<open>errors.New\<close>
  and \<open>fmt.Errorf\<close> build in this file; \<open>foreignError\<close> stands for an error value made
  by a collaborator (the checker's store, \<open>url.Parse\<close>).
\<close>

datatype error = errorString string | foreignError string

fun Error :: "error \<Rightarrow> string" where
  "Error (errorString m) = m"
| "Error (foreignError m) = m"

text \<open>\<open>user.Info\<close> (k8s.io/kubernetes/pkg/auth/user): the identity of the authenticated user.\<close>

record user_info =
  Name :: string
  UID :: string
  Groups :: "string list"

text \<open>
  \<open>AuthorizeRequest.UserData\<close> is an \<open>interface{}\<close>. The assertion
  \<open>ar.UserData.(user.Info)\<close> succeeds exactly on a value that implements \<open>user.Info\<close>;
  on the nil interface and on any other dynamic type it yields \<open>ok = false\<close>.
\<close>

datatype user_data = NilUserData | OtherUserData string | UserInfoData user_info

text \<open>
  Modelled from the spec: \<open>oauthapi.GrantHandlerType\<close> is declared in pkg/oauth/api, which
  is not among the sources at hand. It is a Go string type naming a grant policy.
\<close>

type_synonym GrantHandlerType = string

text \<open>
  Modelled from the spec: \<open>oauthapi.OAuthClient\<close>, declared in pkg/oauth/api. The spec
  gives the client record a \<open>GrantMethod\<close>, which may be unset (empty).
\<close>

record OAuthClient =
  ObjectName :: string
  GrantMethod :: GrantHandlerType

text \<open>Modelled from the spec: the constant \<open>oauthapi.GrantHandlerAuto\<close>, the policy \<open>auto\<close>.\<close>

definition GrantHandlerAuto :: GrantHandlerType where
  "GrantHandlerAuto = ''auto''"

text \<open>Modelled from the spec: the constant \<open>oauthapi.GrantHandlerPrompt\<close>, the policy \<open>prompt\<close>.\<close>

definition GrantHandlerPrompt :: GrantHandlerType where
  "GrantHandlerPrompt = ''prompt''"

text \<open>Modelled from the spec: the constant \<open>oauthapi.GrantHandlerDeny\<close>, the policy \<open>deny\<close>.\<close>

definition GrantHandlerDeny :: GrantHandlerType where
  "GrantHandlerDeny = ''deny''"

text \<open>
  \<open>osin.Client\<close> is an interface with the getters \<open>GetId\<close>, \<open>GetSecret\<close>,
  \<open>GetRedirectUri\<close> and \<open>GetUserData\<close>; the last returns an \<open>interface{}\<close> on which
  \<open>perClientGrant\<close> asserts \<open>*oauthapi.OAuthClient\<close>.
\<close>

datatype client_user_data = NilClientData | OtherClientData string | OAuthClientData OAuthClient

record osin_client =
  GetId :: string
  GetSecret :: string
  GetRedirectUri :: string
  GetUserData :: client_user_data

text \<open>
  The string fields of \<open>net/url.URL\<close>, and the part of \<open>http.Request\<close> that the handlers
  read.
\<close>

record url =
  Scheme :: string
  Opaque :: string
  Host :: string
  Path :: string
  RawQuery :: string
  Fragment :: string

record http_request =
  Method :: string
  URL :: url

text \<open>
  The \<open>http.ResponseWriter\<close> is the log of what has been done to it. \<open>http.Redirect\<close>
  is one entry, holding the arguments of the call.
\<close>

datatype response_event =
    Redirected http_request string nat
  | HeaderSet string string
  | StatusWritten nat
  | BodyWritten string

type_synonym response_writer = "response_event list"

definition StatusFound :: nat where
  "StatusFound = 302"

definition http_Redirect :: "response_writer \<Rightarrow> http_request \<Rightarrow> string \<Rightarrow> nat \<Rightarrow> response_writer" where
  "http_Redirect w req urlStr code = w @ [Redirected req urlStr code]"

text \<open>
  \<open>api.Grant\<close> (declared in pkg/auth/api), with the fields that the struct literal in
  \<open>HandleAuthorize\<close> fills. \<open>Expiration\<close> is an \<open>int64\<close>.
\<close>

record Grant =
  Client :: osin_client
  Scope :: string
  Expiration :: "64 word"
  RedirectURI :: string

text \<open>
  The fields of \<open>osin.AuthorizeRequest\<close> that the grant check reads or writes.
  \<open>Expiration\<close> is an \<open>int32\<close> there. Field names that the request shares with the grant
  carry the prefix \<open>ar_\<close>.
\<close>

record AuthorizeRequest =
  ar_Client :: osin_client
  ar_Scope :: string
  RedirectUri :: string
  State :: string
  Authorized :: bool
  ar_Expiration :: "32 word"
  UserData :: user_data
  HttpRequest :: http_request

subsection \<open>The standard library\<close>

text \<open>
  \<open>url.Parse\<close>, \<open>URL.String\<close> and \<open>url.Values.Encode\<close> belong to Go's standard
  library; the handlers are verified for any behaviour of them, so they are parameters.
  A \<open>url.Values\<close> is a map from parameter names to value lists.

  The \<open>%q\<close> verb of \<open>fmt.Errorf\<close> on a value of a string type is \<open>strconv.Quote\<close>:
  a double quote, the string with each rune copied or escaped, a double quote. The
  escaping is written out below for bytes under \<open>0x7F\<close>: the double quote and the
  backslash get a backslash in front, the other printable bytes (\<open>0x20\<close> and above) are
  copied, seven control bytes have a letter escape, and the remaining ones become \<open>\x\<close>
  and two lower-case hex digits. From the first byte at or above \<open>0x7F\<close> on, quoting
  depends on UTF-8 decoding and on Unicode tables, and the rest of the string is left to
  the parameter \<open>quote_tail\<close>.
\<close>

record go_env =
  url_Parse :: "string \<Rightarrow> error + url"
  url_String :: "url \<Rightarrow> string"
  url_Values_Encode :: "(string \<rightharpoonup> string list) \<Rightarrow> string"
  quote_tail :: "string \<Rightarrow> string"

definition lowerhex :: "nat \<Rightarrow> char" where
  "lowerhex n = ''0123456789abcdef'' ! (n mod 16)"

definition appendEscapedRune :: "char \<Rightarrow> string" where
  "appendEscapedRune c =
     (if c = CHR 0x22 \<or> c = CHR 0x5C then [CHR 0x5C, c]
      else if (0x20::nat) \<le> of_char c then [c]
      else if c = CHR 0x07 then [CHR 0x5C, CHR ''a'']
      else if c = CHR 0x08 then [CHR 0x5C, CHR ''b'']
      else if c = CHR 0x0C then [CHR 0x5C, CHR ''f'']
      else if c = CHR 0x0A then [CHR 0x5C, CHR ''n'']
      else if c = CHR 0x0D then [CHR 0x5C, CHR ''r'']
      else if c = CHR 0x09 then [CHR 0x5C, CHR ''t'']
      else if c = CHR 0x0B then [CHR 0x5C, CHR ''v'']
      else [CHR 0x5C, CHR ''x'', lowerhex (of_char c div 16), lowerhex (of_char c mod 16)])"

fun quoteBody :: "(string \<Rightarrow> string) \<Rightarrow> string \<Rightarrow> string" where
  "quoteBody tail [] = []"
| "quoteBody tail (c # s) =
     (if (of_char c :: nat) < 0x7F then appendEscapedRune c @ quoteBody tail s
      else tail (c # s))"

definition strconv_Quote :: "go_env \<Rightarrow> string \<Rightarrow> string" where
  "strconv_Quote env s = [CHR 0x22] @ quoteBody (quote_tail env) s @ [CHR 0x22]"

subsection \<open>The collaborators\<close>

text \<open>
  Modelled from the spec: the interfaces \<open>GrantChecker\<close>, \<open>GrantErrorHandler\<close> and
  \<open>GrantHandler\<close> are declared in another file of the package. Their signatures are those
  of the calls made here. \<open>GrantChecker.HasAuthorizedClient(user, grant)\<close> is a query
  returning \<open>(bool, error)\<close>. \<open>GrantErrorHandler.GrantError(err, w, req)\<close> returns
  \<open>(bool, error)\<close> and may write to \<open>w\<close>. \<open>GrantHandler.GrantNeeded(user, grant, w, req)\<close>
  returns \<open>(authorized, handled, err)\<close> and may write to \<open>w\<close>.
\<close>

type_synonym GrantChecker = "user_info \<Rightarrow> Grant \<Rightarrow> bool \<times> error option"

type_synonym GrantErrorHandler =
  "error \<Rightarrow> response_writer \<Rightarrow> http_request \<Rightarrow> (bool \<times> error option) \<times> response_writer"

type_synonym grant_result = "(bool \<times> bool \<times> error option) \<times> response_writer"

text \<open>
  The implementations of \<open>GrantHandler\<close>: the four of this file, with the fields of their
  structs (\<open>redirectGrant{url}\<close>, \<open>perClientGrant{auto, prompt, deny, defaultMethod}\<close>),
  and \<open>externalGrant\<close> for an implementation supplied by the caller.
\<close>

datatype GrantHandler =
    emptyGrant
  | autoGrant
  | redirectGrant string
  | perClientGrant GrantHandler GrantHandler GrantHandler GrantHandlerType
  | externalGrant "user_info \<Rightarrow> Grant \<Rightarrow> response_writer \<Rightarrow> http_request \<Rightarrow> grant_result"

definition NewEmptyGrant :: GrantHandler where
  "NewEmptyGrant = emptyGrant"

definition NewAutoGrant :: GrantHandler where
  "NewAutoGrant = autoGrant"

definition NewRedirectGrant :: "string \<Rightarrow> GrantHandler" where
  "NewRedirectGrant u = redirectGrant u"

definition NewPerClientGrant :: "GrantHandler \<Rightarrow> GrantHandlerType \<Rightarrow> GrantHandler" where
  "NewPerClientGrant prompt defaultMethod =
     perClientGrant NewAutoGrant prompt NewEmptyGrant defaultMethod"

subsection \<open>GrantNeeded\<close>

text \<open>The \<open>url.Values\<close> literal of \<open>redirectGrant.GrantNeeded\<close>.\<close>

definition redirectValues :: "go_env \<Rightarrow> Grant \<Rightarrow> http_request \<Rightarrow> (string \<rightharpoonup> string list)" where
  "redirectValues env grant req =
     [''then'' \<mapsto> [url_String env (URL req)],
      ''client_id'' \<mapsto> [GetId (Client grant)],
      ''scopes'' \<mapsto> [Scope grant],
      ''redirect_uri'' \<mapsto> [RedirectURI grant]]"

text \<open>
  The four \<open>GrantNeeded\<close> methods, one equation each, and the call of an implementation
  from outside. In \<open>perClientGrant\<close> the assertion \<open>.(*oauthapi.OAuthClient)\<close> succeeds on
  an OAuth client record only, and the \<open>switch\<close> tries \<open>auto\<close>, \<open>prompt\<close>, \<open>deny\<close> in
  this order.
\<close>

fun GrantNeeded ::
  "go_env \<Rightarrow> GrantHandler \<Rightarrow> user_info \<Rightarrow> Grant \<Rightarrow> response_writer \<Rightarrow> http_request \<Rightarrow> grant_result"
where
  "GrantNeeded env emptyGrant user grant w req = ((False, False, None), w)"
| "GrantNeeded env autoGrant user grant w req = ((True, False, None), w)"
| "GrantNeeded env (redirectGrant u) user grant w req =
     (case url_Parse env u of
        Inl err \<Rightarrow> ((False, False, Some err), w)
      | Inr redirectURL \<Rightarrow>
          (let redirectURL = redirectURL\<lparr>RawQuery := url_Values_Encode env (redirectValues env grant req)\<rparr>
           in ((False, True, None), http_Redirect w req (url_String env redirectURL) StatusFound)))"
| "GrantNeeded env (perClientGrant auto prompt deny defaultMethod) user grant w req =
     (case GetUserData (Client grant) of
        OAuthClientData client \<Rightarrow>
          (let method = GrantMethod client;
               method = (if length method = 0 then defaultMethod else method)
           in if method = GrantHandlerAuto then GrantNeeded env auto user grant w req
              else if method = GrantHandlerPrompt then GrantNeeded env prompt user grant w req
              else if method = GrantHandlerDeny then GrantNeeded env deny user grant w req
              else ((False, False,
                     Some (errorString (''OAuth client grant method '' @ strconv_Quote env method @ '' unrecognized''))), w))
      | _ \<Rightarrow> ((False, False, Some (errorString ''unrecognized OAuth client type'')), w))"
| "GrantNeeded env (externalGrant f) user grant w req = f user grant w req"

subsection \<open>GrantCheck\<close>

record GrantCheck =
  check :: GrantChecker
  handler :: GrantHandler
  errorHandler :: GrantErrorHandler

definition NewGrantCheck :: "GrantChecker \<Rightarrow> GrantHandler \<Rightarrow> GrantErrorHandler \<Rightarrow> GrantCheck" where
  "NewGrantCheck c g e = \<lparr>check = c, handler = g, errorHandler = e\<rparr>"

text \<open>
  \<open>HandleAuthorize\<close> returns its Go result \<open>(bool, error)\<close>, the request as it leaves it,
  and the writer as it leaves it.
\<close>

type_synonym authorize_result = "(bool \<times> error option) \<times> AuthorizeRequest \<times> response_writer"

definition HandleAuthorize ::
  "go_env \<Rightarrow> GrantCheck \<Rightarrow> AuthorizeRequest \<Rightarrow> response_writer \<Rightarrow> authorize_result"
where
  "HandleAuthorize env h ar0 w =
     (if \<not> Authorized ar0 then ((False, None), ar0, w)
      else
        let ar = ar0\<lparr>Authorized := False\<rparr> in
        case UserData ar of
          UserInfoData user \<Rightarrow>
            (let grant = \<lparr>Client = ar_Client ar, Scope = ar_Scope ar,
                          Expiration = scast (ar_Expiration ar), RedirectURI = RedirectUri ar\<rparr>
             in case check h user grant of
               (authorized, Some err) \<Rightarrow>
                 (case errorHandler h err w (HttpRequest ar) of (r, w') \<Rightarrow> (r, ar, w'))
             | (authorized, None) \<Rightarrow>
                 if authorized then ((False, None), ar\<lparr>Authorized := True\<rparr>, w)
                 else
                   (case GrantNeeded env (handler h) user grant w (HttpRequest ar) of
                      ((authorized, handled, err), w') \<Rightarrow>
                        ((handled, err), (if authorized then ar\<lparr>Authorized := True\<rparr> else ar), w')))
        | _ \<Rightarrow>
            (case errorHandler h (errorString ''the provided user data is not user.Info'') w (HttpRequest ar) of
               (r, w') \<Rightarrow> (r, ar, w')))"

text \<open>The snapshot that \<open>HandleAuthorize\<close> builds from a request, for use in statements.\<close>

definition grantOf :: "AuthorizeRequest \<Rightarrow> Grant" where
  "grantOf ar = \<lparr>Client = ar_Client ar, Scope = ar_Scope ar,
                 Expiration = scast (ar_Expiration ar), RedirectURI = RedirectUri ar\<rparr>"

subsection \<open>Notions used in the statements\<close>

text \<open>
  What a return through \<open>h.errorHandler.GrantError(err, w, ar.HttpRequest)\<close> amounts to:
  the pair that \<open>GrantError\<close> returns, the writer as \<open>GrantError\<close> left it, and the request
  with \<open>Authorized\<close> false.
\<close>

definition viaGrantError ::
  "GrantCheck \<Rightarrow> error \<Rightarrow> AuthorizeRequest \<Rightarrow> response_writer \<Rightarrow> authorize_result"
where
  "viaGrantError h err ar w =
     (case errorHandler h err w (HttpRequest ar) of (r, w') \<Rightarrow> (r, ar\<lparr>Authorized := False\<rparr>, w'))"

text \<open>
  The method that \<open>perClientGrant.GrantNeeded\<close> switches on (the client's own, or the default
  when the client's is empty), and the error of its \<open>default\<close> branch.
\<close>

definition resolvedMethod :: "OAuthClient \<Rightarrow> GrantHandlerType \<Rightarrow> GrantHandlerType" where
  "resolvedMethod client defaultMethod =
     (if GrantMethod client = [] then defaultMethod else GrantMethod client)"

definition unrecognizedMethod :: "go_env \<Rightarrow> GrantHandlerType \<Rightarrow> error" where
  "unrecognizedMethod env m =
     errorString (''OAuth client grant method '' @ strconv_Quote env m @ '' unrecognized'')"

text \<open>
  A byte that \<open>strconv.Quote\<close> copies as it is: printable ASCII other than the double quote
  and the backslash.
\<close>

definition plainRune :: "char \<Rightarrow> bool" where
  "plainRune c =
     ((0x20::nat) \<le> of_char c \<and> (of_char c :: nat) < 0x7F \<and> c \<noteq> CHR 0x22 \<and> c \<noteq> CHR 0x5C)"

subsection \<open>Sample inputs\<close>

text \<open>
  Concrete collaborators and requests on which the definitions are run. The sample
  standard library keeps a parsed URL's text in \<open>Path\<close>, rejects \<open>":"\<close> (for which
  \<open>url.Parse\<close> reports a missing protocol scheme), and encodes the four query parameters
  in key order with the escaping of \<open>url.QueryEscape\<close>.
\<close>

definition upperhex :: "nat \<Rightarrow> char" where
  "upperhex n = ''0123456789ABCDEF'' ! (n mod 16)"

definition QueryEscape :: "string \<Rightarrow> string" where
  "QueryEscape s =
     concat (map (\<lambda>c.
       if c = CHR '' '' then ''+''
       else if c \<in> set ''abcdefghijklmnopqrstuvwxyzABCDEFGHIJKLMNOPQRSTUVWXYZ0123456789-_.~'' then [c]
       else [CHR ''%'', upperhex (of_char c div 16), upperhex (of_char c mod 16)]) s)"

fun joinAmp :: "string list \<Rightarrow> string" where
  "joinAmp [] = []"
| "joinAmp [x] = x"
| "joinAmp (x # y # ys) = x @ ''&'' @ joinAmp (y # ys)"

definition sampleEncode :: "(string \<rightharpoonup> string list) \<Rightarrow> string" where
  "sampleEncode v =
     joinAmp (concat (map (\<lambda>k. case v k of
                                   None \<Rightarrow> []
                                 | Some vs \<Rightarrow> map (\<lambda>x. QueryEscape k @ ''='' @ QueryEscape x) vs)
                          [''client_id'', ''redirect_uri'', ''scopes'', ''then'']))"

definition sampleEnv :: go_env where
  "sampleEnv =
     \<lparr>url_Parse = (\<lambda>s. if s = '':'' then Inl (foreignError ''missing protocol scheme'')
                        else Inr \<lparr>Scheme = [], Opaque = [], Host = [], Path = s,
                                  RawQuery = [], Fragment = []\<rparr>),
      url_String = (\<lambda>u. Path u @ (if RawQuery u = [] then [] else ''?'' @ RawQuery u)),
      url_Values_Encode = sampleEncode,
      quote_tail = (\<lambda>s. [])\<rparr>"

definition sampleUser :: user_info where
  "sampleUser = \<lparr>Name = ''alice'', UID = ''1001'', Groups = [''developers'']\<rparr>"

definition sampleClient :: "GrantHandlerType \<Rightarrow> osin_client" where
  "sampleClient method =
     \<lparr>GetId = ''abc'', GetSecret = ''secret'', GetRedirectUri = ''https://app.example/cb'',
      GetUserData = OAuthClientData \<lparr>ObjectName = ''abc'', GrantMethod = method\<rparr>\<rparr>"

definition sampleHttpRequest :: http_request where
  "sampleHttpRequest =
     \<lparr>Method = ''GET'',
      URL = \<lparr>Scheme = [], Opaque = [], Host = [], Path = ''https://as.example/authorize'',
             RawQuery = ''x=1'', Fragment = []\<rparr>\<rparr>"

definition sampleRequest :: "bool \<Rightarrow> user_data \<Rightarrow> GrantHandlerType \<Rightarrow> AuthorizeRequest" where
  "sampleRequest authorized data method =
     \<lparr>ar_Client = sampleClient method, ar_Scope = ''read write'',
      RedirectUri = ''https://app.example/cb'', State = ''xyz'', Authorized = authorized,
      ar_Expiration = 3600, UserData = data, HttpRequest = sampleHttpRequest\<rparr>"

definition sampleGrant :: "GrantHandlerType \<Rightarrow> Grant" where
  "sampleGrant method =
     \<lparr>Client = sampleClient method, Scope = ''read write'', Expiration = 3600,
      RedirectURI = ''https://app.example/cb''\<rparr>"

definition sampleErrorHandler :: GrantErrorHandler where
  "sampleErrorHandler err w req = ((True, None), w @ [StatusWritten 500, BodyWritten (Error err)])"

definition sampleGrantCheck :: "bool \<times> error option \<Rightarrow> GrantHandler \<Rightarrow> GrantCheck" where
  "sampleGrantCheck answer g = NewGrantCheck (\<lambda>user grant. answer) g sampleErrorHandler"

definition consentURL :: string where
  "consentURL = ''https://example.com/consent''"

definition quotedMethod :: GrantHandlerType where
  "quotedMethod = [CHR ''a'', CHR 0x22, CHR ''b'']"




section \<open>Properties\<close>

subsection \<open>Auxiliary facts\<close>

lemmas sample_defs =
  sampleEnv_def sampleUser_def sampleClient_def sampleHttpRequest_def sampleRequest_def
  sampleGrant_def sampleErrorHandler_def sampleGrantCheck_def NewGrantCheck_def consentURL_def
  quotedMethod_def sampleEncode_def QueryEscape_def upperhex_def

lemmas handler_defs =
  NewEmptyGrant_def NewAutoGrant_def NewRedirectGrant_def NewPerClientGrant_def
  GrantHandlerAuto_def GrantHandlerPrompt_def GrantHandlerDeny_def

lemma Authorized_already_set: "Authorized ar \<Longrightarrow> ar\<lparr>Authorized := True\<rparr> = ar"
  by (cases ar) simp

lemma grantOf_Authorized_update: "grantOf (ar\<lparr>Authorized := b\<rparr>) = grantOf ar"
  by (simp add: grantOf_def)


lemma quoteBody_plain: "list_all plainRune s \<Longrightarrow> quoteBody t s = s"
  by (induction s) (auto simp: appendEscapedRune_def plainRune_def)

lemma method_names_distinct:
  "GrantHandlerAuto \<noteq> GrantHandlerPrompt"
  "GrantHandlerAuto \<noteq> GrantHandlerDeny"
  "GrantHandlerPrompt \<noteq> GrantHandlerDeny"
  by (simp_all add: GrantHandlerAuto_def GrantHandlerPrompt_def GrantHandlerDeny_def)

subsection \<open>The orchestrator\<close>

text \<open>
  C1. Fail-closed: a request that enters \<open>HandleAuthorize\<close> with \<open>Authorized\<close> true leaves it
  with every other field as it was and with \<open>Authorized\<close> true exactly when the user data is
  a user identity and either the checker answered \<open>(true, nil)\<close>, or it answered
  \<open>(false, nil)\<close> and the handler returned \<open>authorized = true\<close>. The flag is cleared before
  anything else is done, so on every remaining path (malformed identity, checker error,
  handler not authorizing, with or without an error) the request leaves as
  \<open>ar\<lparr>Authorized := False\<rparr>\<close>.
\<close>

theorem HandleAuthorize_fail_closed:
  assumes "Authorized ar"
  shows "fst (snd (HandleAuthorize env h ar w)) =
     ar\<lparr>Authorized :=
          (\<exists>user. UserData ar = UserInfoData user \<and>
             (check h user (grantOf ar) = (True, None) \<or>
              (check h user (grantOf ar) = (False, None) \<and>
               fst (fst (GrantNeeded env (handler h) user (grantOf ar) w (HttpRequest ar))))))\<rparr>"
  using assms
  by (auto simp: HandleAuthorize_def grantOf_def Let_def
           split: user_data.splits prod.splits option.splits)

theorem HandleAuthorize_fail_closed_witness:
  "Authorized (sampleRequest True (UserInfoData sampleUser) ''auto'')
   \<and> Authorized (fst (snd (HandleAuthorize sampleEnv
         (sampleGrantCheck (False, None) (NewPerClientGrant (NewRedirectGrant consentURL) ''prompt''))
         (sampleRequest True (UserInfoData sampleUser) ''auto'') [])))
   \<and> \<not> Authorized (fst (snd (HandleAuthorize sampleEnv
         (sampleGrantCheck (True, Some (foreignError ''timeout'')) NewAutoGrant)
         (sampleRequest True (UserInfoData sampleUser) ''auto'') [])))"
  using
    HandleAuthorize_fail_closed [of "sampleRequest True (UserInfoData sampleUser) ''auto''" sampleEnv
      "sampleGrantCheck (False, None) (NewPerClientGrant (NewRedirectGrant consentURL) ''prompt'')" "[]"]
    HandleAuthorize_fail_closed [of "sampleRequest True (UserInfoData sampleUser) ''auto''" sampleEnv
      "sampleGrantCheck (True, Some (foreignError ''timeout'')) NewAutoGrant" "[]"]
  by (simp add: sample_defs handler_defs grantOf_def)

text \<open>
  C2. When the request enters authorized, carries a user identity, and the checker answers
  \<open>(true, nil)\<close> for the grant built from the request, \<open>HandleAuthorize\<close> returns
  \<open>(false, nil)\<close>, the request leaves unchanged (so still authorized) and nothing is written,
  whatever handler \<open>g\<close> is configured: the result has no trace of \<open>g\<close>.
\<close>

theorem HandleAuthorize_prior_grant:
  assumes "Authorized ar"
    and "UserData ar = UserInfoData user"
    and "check h user (grantOf ar) = (True, None)"
  shows "HandleAuthorize env (h\<lparr>handler := g\<rparr>) ar w = ((False, None), ar, w)"
  using assms
  by (simp add: HandleAuthorize_def grantOf_def Let_def Authorized_already_set)

theorem HandleAuthorize_prior_grant_witness:
  "Authorized (sampleRequest True (UserInfoData sampleUser) ''prompt'')
   \<and> UserData (sampleRequest True (UserInfoData sampleUser) ''prompt'') = UserInfoData sampleUser
   \<and> check (sampleGrantCheck (True, None) NewEmptyGrant) sampleUser
        (grantOf (sampleRequest True (UserInfoData sampleUser) ''prompt'')) = (True, None)
   \<and> HandleAuthorize sampleEnv
        ((sampleGrantCheck (True, None) NewEmptyGrant)\<lparr>handler := NewRedirectGrant consentURL\<rparr>)
        (sampleRequest True (UserInfoData sampleUser) ''prompt'') []
      = ((False, None), sampleRequest True (UserInfoData sampleUser) ''prompt'', [])"
  using HandleAuthorize_prior_grant
    [of "sampleRequest True (UserInfoData sampleUser) ''prompt''" sampleUser
        "sampleGrantCheck (True, None) NewEmptyGrant" sampleEnv "NewRedirectGrant consentURL" "[]"]
  by (simp add: sample_defs)

text \<open>
  C7. A request that enters with \<open>Authorized\<close> false is returned at the first test:
  \<open>HandleAuthorize\<close> gives \<open>(false, nil)\<close>, the request and the writer are as they were,
  and the result is the same for every checker, handler and error handler, none of which
  is consulted.
\<close>

theorem HandleAuthorize_unauthorized_noop:
  assumes "\<not> Authorized ar"
  shows "HandleAuthorize env h ar w = ((False, None), ar, w)"
  using assms by (simp add: HandleAuthorize_def)

theorem HandleAuthorize_unauthorized_noop_witness:
  "\<not> Authorized (sampleRequest False (UserInfoData sampleUser) ''auto'')
   \<and> HandleAuthorize sampleEnv (sampleGrantCheck (True, None) NewAutoGrant)
        (sampleRequest False (UserInfoData sampleUser) ''auto'') [HeaderSet ''X'' ''y'']
      = ((False, None), sampleRequest False (UserInfoData sampleUser) ''auto'', [HeaderSet ''X'' ''y''])"
  using HandleAuthorize_unauthorized_noop
    [of "sampleRequest False (UserInfoData sampleUser) ''auto''" sampleEnv
        "sampleGrantCheck (True, None) NewAutoGrant" "[HeaderSet ''X'' ''y'']"]
  by (simp add: sample_defs)

text \<open>
  C6. When the request enters authorized with a user identity and the checker answers
  \<open>(false, nil)\<close>: with the Auto handler \<open>HandleAuthorize\<close> returns \<open>(false, nil)\<close> and the
  request leaves authorized; with the Empty handler it returns \<open>(false, nil)\<close> and the
  request leaves with \<open>Authorized\<close> false. In both cases the writer is untouched.
\<close>

theorem HandleAuthorize_auto_and_empty:
  assumes "Authorized ar"
    and "UserData ar = UserInfoData user"
    and "check h user (grantOf ar) = (False, None)"
  shows "HandleAuthorize env (h\<lparr>handler := NewAutoGrant\<rparr>) ar w = ((False, None), ar, w)
       \<and> HandleAuthorize env (h\<lparr>handler := NewEmptyGrant\<rparr>) ar w
           = ((False, None), ar\<lparr>Authorized := False\<rparr>, w)"
  using assms
  by (simp add: HandleAuthorize_def grantOf_def Let_def NewAutoGrant_def NewEmptyGrant_def
        Authorized_already_set)

theorem HandleAuthorize_auto_and_empty_witness:
  "Authorized (sampleRequest True (UserInfoData sampleUser) ''prompt'')
   \<and> UserData (sampleRequest True (UserInfoData sampleUser) ''prompt'') = UserInfoData sampleUser
   \<and> check (sampleGrantCheck (False, None) (NewRedirectGrant consentURL)) sampleUser
        (grantOf (sampleRequest True (UserInfoData sampleUser) ''prompt'')) = (False, None)
   \<and> HandleAuthorize sampleEnv (sampleGrantCheck (False, None) NewAutoGrant)
        (sampleRequest True (UserInfoData sampleUser) ''prompt'') []
      = ((False, None), sampleRequest True (UserInfoData sampleUser) ''prompt'', [])
   \<and> HandleAuthorize sampleEnv (sampleGrantCheck (False, None) NewEmptyGrant)
        (sampleRequest True (UserInfoData sampleUser) ''prompt'') []
      = ((False, None), sampleRequest False (UserInfoData sampleUser) ''prompt'', [])"
  using HandleAuthorize_auto_and_empty
    [of "sampleRequest True (UserInfoData sampleUser) ''prompt''" sampleUser
        "sampleGrantCheck (False, None) (NewRedirectGrant consentURL)" sampleEnv "[]"]
  by (simp add: sample_defs)

text \<open>
  C8. When the request enters authorized with a user identity and the checker returns a
  non-nil error \<open>err\<close> (whatever boolean comes with it), \<open>HandleAuthorize\<close> returns the pair
  that \<open>GrantError\<close> returns for \<open>err\<close>, with the writer as \<open>GrantError\<close> left it and the
  request unauthorized. This holds for every handler \<open>g\<close>, and the result has no trace of
  \<open>g\<close>.
\<close>

theorem HandleAuthorize_checker_error:
  assumes "Authorized ar"
    and "UserData ar = UserInfoData user"
    and "check h user (grantOf ar) = (b, Some err)"
  shows "HandleAuthorize env (h\<lparr>handler := g\<rparr>) ar w = viaGrantError h err ar w"
  using assms
  by (simp add: HandleAuthorize_def grantOf_def Let_def viaGrantError_def)

theorem HandleAuthorize_checker_error_witness:
  "Authorized (sampleRequest True (UserInfoData sampleUser) ''auto'')
   \<and> UserData (sampleRequest True (UserInfoData sampleUser) ''auto'') = UserInfoData sampleUser
   \<and> check (sampleGrantCheck (True, Some (foreignError ''store timeout'')) NewEmptyGrant) sampleUser
        (grantOf (sampleRequest True (UserInfoData sampleUser) ''auto''))
      = (True, Some (foreignError ''store timeout''))
   \<and> HandleAuthorize sampleEnv (sampleGrantCheck (True, Some (foreignError ''store timeout'')) NewAutoGrant)
        (sampleRequest True (UserInfoData sampleUser) ''auto'') []
      = ((True, None), sampleRequest False (UserInfoData sampleUser) ''auto'',
         [StatusWritten 500, BodyWritten ''store timeout''])"
  using HandleAuthorize_checker_error
    [of "sampleRequest True (UserInfoData sampleUser) ''auto''" sampleUser
        "sampleGrantCheck (True, Some (foreignError ''store timeout'')) NewEmptyGrant" True
        "foreignError ''store timeout''" sampleEnv NewAutoGrant "[]"]
  by (simp add: sample_defs viaGrantError_def)




text \<open>
  C3, as the code has it. Two kinds of error go through \<open>GrantErrorHandler\<close>: user data that
  is not a user identity, and a non-nil error from the checker. For both, \<open>HandleAuthorize\<close>
  returns what \<open>GrantError\<close> returns for that error. What the handler returns is not
  interpreted: its \<open>(handled, err)\<close> is the return value as it stands and the writer is as
  the handler left it, so an error of the handler (unrecognized client type, a base URL
  that does not parse, an unrecognized grant method) reaches the caller without
  \<open>GrantError\<close> being called.
\<close>

theorem HandleAuthorize_error_routing:
  assumes "Authorized ar"
  shows "((\<forall>user. UserData ar \<noteq> UserInfoData user) \<longrightarrow>
            HandleAuthorize env h ar w =
              viaGrantError h (errorString ''the provided user data is not user.Info'') ar w)
       \<and> (\<forall>user b err.
            UserData ar = UserInfoData user \<and> check h user (grantOf ar) = (b, Some err) \<longrightarrow>
            HandleAuthorize env h ar w = viaGrantError h err ar w)
       \<and> (\<forall>user a handled err w'.
            UserData ar = UserInfoData user \<and> check h user (grantOf ar) = (False, None) \<and>
            GrantNeeded env (handler h) user (grantOf ar) w (HttpRequest ar) = ((a, handled, err), w') \<longrightarrow>
            HandleAuthorize env h ar w = ((handled, err), ar\<lparr>Authorized := a\<rparr>, w'))"
proof (intro conjI allI impI)
  assume "\<forall>user. UserData ar \<noteq> UserInfoData user"
  with assms show "HandleAuthorize env h ar w =
      viaGrantError h (errorString ''the provided user data is not user.Info'') ar w"
    by (cases "UserData ar") (simp_all add: HandleAuthorize_def viaGrantError_def Let_def)
next
  fix user b err
  assume "UserData ar = UserInfoData user \<and> check h user (grantOf ar) = (b, Some err)"
  with assms show "HandleAuthorize env h ar w = viaGrantError h err ar w"
    by (simp add: HandleAuthorize_def viaGrantError_def grantOf_def Let_def)
next
  fix user a handled err w'
  assume "UserData ar = UserInfoData user \<and> check h user (grantOf ar) = (False, None) \<and>
    GrantNeeded env (handler h) user (grantOf ar) w (HttpRequest ar) = ((a, handled, err), w')"
  with assms show "HandleAuthorize env h ar w = ((handled, err), ar\<lparr>Authorized := a\<rparr>, w')"
    by (simp add: HandleAuthorize_def grantOf_def Let_def)
qed

theorem HandleAuthorize_error_routing_witness:
  "Authorized (sampleRequest True NilUserData ''auto'')
   \<and> HandleAuthorize sampleEnv (sampleGrantCheck (False, None) NewAutoGrant)
        (sampleRequest True NilUserData ''auto'') []
      = ((True, None), sampleRequest False NilUserData ''auto'',
         [StatusWritten 500, BodyWritten ''the provided user data is not user.Info''])
   \<and> HandleAuthorize sampleEnv (sampleGrantCheck (False, Some (foreignError ''store timeout'')) NewAutoGrant)
        (sampleRequest True (UserInfoData sampleUser) ''auto'') []
      = ((True, None), sampleRequest False (UserInfoData sampleUser) ''auto'',
         [StatusWritten 500, BodyWritten ''store timeout''])
   \<and> HandleAuthorize sampleEnv (sampleGrantCheck (False, None) (NewRedirectGrant '':''))
        (sampleRequest True (UserInfoData sampleUser) ''auto'') []
      = ((False, Some (foreignError ''missing protocol scheme'')),
         sampleRequest False (UserInfoData sampleUser) ''auto'', [])"
proof -
  let ?ok = "sampleRequest True (UserInfoData sampleUser) ''auto''"
  have a: "Authorized (sampleRequest True NilUserData ''auto'')" "Authorized ?ok"
    by (simp_all add: sampleRequest_def)
  note identity = HandleAuthorize_error_routing [OF a(1), of sampleEnv
      "sampleGrantCheck (False, None) NewAutoGrant" "[]", THEN conjunct1]
  note checker = HandleAuthorize_error_routing [OF a(2), of sampleEnv
      "sampleGrantCheck (False, Some (foreignError ''store timeout'')) NewAutoGrant" "[]",
      THEN conjunct2, THEN conjunct1, rule_format, of sampleUser False "foreignError ''store timeout''"]
  note forwarded = HandleAuthorize_error_routing [OF a(2), of sampleEnv
      "sampleGrantCheck (False, None) (NewRedirectGrant '':'')" "[]",
      THEN conjunct2, THEN conjunct2, rule_format, of sampleUser False False
      "Some (foreignError ''missing protocol scheme'')" "[]"]
  from a identity checker forwarded show ?thesis
    by (simp add: sample_defs handler_defs viaGrantError_def grantOf_def)
qed

text \<open>
  C3 as stated fails on an error of the handler. With the per-client handler and a client
  whose grant method is \<open>bogus\<close>, \<open>HandleAuthorize\<close> returns \<open>(false, err)\<close> with the
  unrecognized-method error and writes nothing, while \<open>GrantError\<close> for that error returns
  \<open>(true, nil)\<close> and writes a response.
\<close>

theorem HandleAuthorize_handler_error_not_via_GrantError:
  "Authorized (sampleRequest True (UserInfoData sampleUser) ''bogus'')
   \<and> HandleAuthorize sampleEnv
        (sampleGrantCheck (False, None) (NewPerClientGrant (NewRedirectGrant consentURL) ''prompt''))
        (sampleRequest True (UserInfoData sampleUser) ''bogus'') []
      = ((False, Some (unrecognizedMethod sampleEnv ''bogus'')),
         sampleRequest False (UserInfoData sampleUser) ''bogus'', [])
   \<and> viaGrantError
        (sampleGrantCheck (False, None) (NewPerClientGrant (NewRedirectGrant consentURL) ''prompt''))
        (unrecognizedMethod sampleEnv ''bogus'')
        (sampleRequest True (UserInfoData sampleUser) ''bogus'') []
      = ((True, None), sampleRequest False (UserInfoData sampleUser) ''bogus'',
         [StatusWritten 500,
          BodyWritten (''OAuth client grant method '' @ [CHR 0x22] @ ''bogus'' @ [CHR 0x22] @ '' unrecognized'')])
   \<and> HandleAuthorize sampleEnv
        (sampleGrantCheck (False, None) (NewPerClientGrant (NewRedirectGrant consentURL) ''prompt''))
        (sampleRequest True (UserInfoData sampleUser) ''bogus'') []
      \<noteq> viaGrantError
        (sampleGrantCheck (False, None) (NewPerClientGrant (NewRedirectGrant consentURL) ''prompt''))
        (unrecognizedMethod sampleEnv ''bogus'')
        (sampleRequest True (UserInfoData sampleUser) ''bogus'') []"
  by (simp add: sample_defs handler_defs HandleAuthorize_def viaGrantError_def
        unrecognizedMethod_def strconv_Quote_def appendEscapedRune_def)

subsection \<open>The handlers\<close>

text \<open>
  C4, as the code has it. For a client whose user data is an OAuth client record, the
  per-client handler switches on the client's grant method, or on the configured default
  when the client's is empty: \<open>auto\<close> gives what the auto sub-handler gives, \<open>prompt\<close> what
  the prompt sub-handler gives, \<open>deny\<close> what the deny sub-handler gives. Any other method
  gives \<open>(false, false, err)\<close> with nothing written, where the message of \<open>err\<close> is
  \<open>OAuth client grant method\<close>, the method as \<open>%q\<close> quotes it, \<open>unrecognized\<close>. The message
  contains the method itself whenever the method is made of printable ASCII other than the
  double quote and the backslash.
\<close>

theorem perClientGrant_dispatch:
  assumes "GetUserData (Client grant) = OAuthClientData client"
  shows "(resolvedMethod client defaultMethod = GrantHandlerAuto \<longrightarrow>
            GrantNeeded env (perClientGrant auto prompt deny defaultMethod) user grant w req =
            GrantNeeded env auto user grant w req)
       \<and> (resolvedMethod client defaultMethod = GrantHandlerPrompt \<longrightarrow>
            GrantNeeded env (perClientGrant auto prompt deny defaultMethod) user grant w req =
            GrantNeeded env prompt user grant w req)
       \<and> (resolvedMethod client defaultMethod = GrantHandlerDeny \<longrightarrow>
            GrantNeeded env (perClientGrant auto prompt deny defaultMethod) user grant w req =
            GrantNeeded env deny user grant w req)
       \<and> (resolvedMethod client defaultMethod \<noteq> GrantHandlerAuto \<and>
          resolvedMethod client defaultMethod \<noteq> GrantHandlerPrompt \<and>
          resolvedMethod client defaultMethod \<noteq> GrantHandlerDeny \<longrightarrow>
            GrantNeeded env (perClientGrant auto prompt deny defaultMethod) user grant w req =
              ((False, False, Some (unrecognizedMethod env (resolvedMethod client defaultMethod))), w)
            \<and> (list_all plainRune (resolvedMethod client defaultMethod) \<longrightarrow>
                 sublist (resolvedMethod client defaultMethod)
                   (Error (unrecognizedMethod env (resolvedMethod client defaultMethod)))))"
proof -
  define m where "m = resolvedMethod client defaultMethod"
  have dispatch:
    "GrantNeeded env (perClientGrant auto prompt deny defaultMethod) user grant w req =
       (if m = GrantHandlerAuto then GrantNeeded env auto user grant w req
        else if m = GrantHandlerPrompt then GrantNeeded env prompt user grant w req
        else if m = GrantHandlerDeny then GrantNeeded env deny user grant w req
        else ((False, False, Some (unrecognizedMethod env m)), w))"
    using assms by (simp add: m_def resolvedMethod_def unrecognizedMethod_def Let_def)
  have contains: "sublist m (Error (unrecognizedMethod env m))" if "list_all plainRune m"
  proof -
    have "Error (unrecognizedMethod env m) =
            (''OAuth client grant method '' @ [CHR 0x22]) @ m @ ([CHR 0x22] @ '' unrecognized'')"
      using that by (simp add: unrecognizedMethod_def strconv_Quote_def quoteBody_plain)
    then show ?thesis
      by (simp only: sublist_appendI)
  qed
  from dispatch method_names_distinct contains show ?thesis
    unfolding m_def by auto
qed

theorem perClientGrant_dispatch_witness:
  "GetUserData (Client (sampleGrant [])) = OAuthClientData \<lparr>ObjectName = ''abc'', GrantMethod = []\<rparr>
   \<and> GrantNeeded sampleEnv (NewPerClientGrant (NewRedirectGrant '':'') ''prompt'') sampleUser
        (sampleGrant []) [] sampleHttpRequest
      = ((False, False, Some (foreignError ''missing protocol scheme'')), [])
   \<and> GrantNeeded sampleEnv (NewPerClientGrant (NewRedirectGrant '':'') ''prompt'') sampleUser
        (sampleGrant ''auto'') [] sampleHttpRequest
      = ((True, False, None), [])
   \<and> GrantNeeded sampleEnv (NewPerClientGrant NewAutoGrant ''auto'') sampleUser
        (sampleGrant ''deny'') [] sampleHttpRequest
      = ((False, False, None), [])
   \<and> GrantNeeded sampleEnv (NewPerClientGrant NewAutoGrant ''auto'') sampleUser
        (sampleGrant ''bogus'') [] sampleHttpRequest
      = ((False, False,
          Some (errorString (''OAuth client grant method '' @ [CHR 0x22] @ ''bogus'' @ [CHR 0x22] @ '' unrecognized''))),
         [])
   \<and> sublist ''bogus'' (Error (unrecognizedMethod sampleEnv ''bogus''))"
proof -
  have c: "GetUserData (Client (sampleGrant mth)) = OAuthClientData \<lparr>ObjectName = ''abc'', GrantMethod = mth\<rparr>"
    for mth
    by (simp add: sampleGrant_def sampleClient_def)
  have plain: "list_all plainRune ''bogus''"
    by (simp add: plainRune_def)
  note by_default = perClientGrant_dispatch [OF c, of "[]" "''prompt''" sampleEnv NewAutoGrant
      "NewRedirectGrant '':''" NewEmptyGrant sampleUser "[]" sampleHttpRequest,
      THEN conjunct2, THEN conjunct1]
  note to_auto = perClientGrant_dispatch [OF c, of "''auto''" "''prompt''" sampleEnv NewAutoGrant
      "NewRedirectGrant '':''" NewEmptyGrant sampleUser "[]" sampleHttpRequest,
      THEN conjunct1]
  note to_deny = perClientGrant_dispatch [OF c, of "''deny''" "''auto''" sampleEnv NewAutoGrant
      NewAutoGrant NewEmptyGrant sampleUser "[]" sampleHttpRequest,
      THEN conjunct2, THEN conjunct2, THEN conjunct1]
  note other = perClientGrant_dispatch [OF c, of "''bogus''" "''auto''" sampleEnv NewAutoGrant
      NewAutoGrant NewEmptyGrant sampleUser "[]" sampleHttpRequest,
      THEN conjunct2, THEN conjunct2, THEN conjunct2]
  from c [of "[]"] plain by_default to_auto to_deny other show ?thesis
    by (simp add: resolvedMethod_def handler_defs sampleEnv_def unrecognizedMethod_def
          strconv_Quote_def appendEscapedRune_def)
qed

text \<open>
  C4 as stated fails on a method that \<open>%q\<close> escapes. For the method \<open>a"b\<close> the message is
  \<open>OAuth client grant method "a\"b" unrecognized\<close>, in which \<open>a"b\<close> does not occur.
\<close>

theorem perClientGrant_quoted_method_not_literal:
  "GetUserData (Client (sampleGrant quotedMethod))
      = OAuthClientData \<lparr>ObjectName = ''abc'', GrantMethod = quotedMethod\<rparr>
   \<and> GrantNeeded sampleEnv (NewPerClientGrant (NewRedirectGrant consentURL) ''prompt'') sampleUser
        (sampleGrant quotedMethod) [] sampleHttpRequest
      = ((False, False,
          Some (errorString (''OAuth client grant method ''
                  @ [CHR 0x22, CHR ''a'', CHR 0x5C, CHR 0x22, CHR ''b'', CHR 0x22]
                  @ '' unrecognized''))), [])
   \<and> \<not> sublist quotedMethod
         (''OAuth client grant method ''
            @ [CHR 0x22, CHR ''a'', CHR 0x5C, CHR 0x22, CHR ''b'', CHR 0x22]
            @ '' unrecognized'')"
  by (simp add: sample_defs handler_defs strconv_Quote_def appendEscapedRune_def sublist_code)

text \<open>
  C10. With an OAuth client record whose grant method is empty and a per-client handler
  whose default method is empty too, \<open>GrantNeeded\<close> returns \<open>(false, false, err)\<close> with the
  message \<open>OAuth client grant method "" unrecognized\<close> and writes nothing, whatever the three
  sub-handlers are: none of them contributes to the result.
\<close>

theorem perClientGrant_empty_default:
  assumes "GetUserData (Client grant) = OAuthClientData client"
    and "GrantMethod client = []"
  shows "GrantNeeded env (perClientGrant auto prompt deny []) user grant w req =
     ((False, False,
       Some (errorString (''OAuth client grant method '' @ [CHR 0x22, CHR 0x22] @ '' unrecognized''))),
      w)"
  using assms
  by (simp add: Let_def strconv_Quote_def GrantHandlerAuto_def GrantHandlerPrompt_def
        GrantHandlerDeny_def)

theorem perClientGrant_empty_default_witness:
  "GetUserData (Client (sampleGrant [])) = OAuthClientData \<lparr>ObjectName = ''abc'', GrantMethod = []\<rparr>
   \<and> GrantMethod \<lparr>ObjectName = ''abc'', GrantMethod = []\<rparr> = []
   \<and> GrantNeeded sampleEnv (NewPerClientGrant (NewRedirectGrant consentURL) []) sampleUser
        (sampleGrant []) [] sampleHttpRequest
      = ((False, False,
          Some (errorString (''OAuth client grant method '' @ [CHR 0x22, CHR 0x22] @ '' unrecognized''))),
         [])"
proof -
  have c: "GetUserData (Client (sampleGrant [])) = OAuthClientData \<lparr>ObjectName = ''abc'', GrantMethod = []\<rparr>"
    by (simp add: sampleGrant_def sampleClient_def)
  have e: "GrantMethod \<lparr>ObjectName = ''abc'', GrantMethod = []\<rparr> = []"
    by simp
  from c e perClientGrant_empty_default [OF c e, of sampleEnv NewAutoGrant
      "NewRedirectGrant consentURL" NewEmptyGrant sampleUser "[]" sampleHttpRequest]
  show ?thesis
    by (simp add: NewPerClientGrant_def)
qed




end
